theory Spec2Isabelle
  imports Complex_Main
begin

section \<open>Melody: the piano follow-along player\<close>

text \<open>
  The repository holds two versions of the browser class \<^verbatim>\<open>PianoLearningApp\<close>:
  the enhanced application (the source file of 489 lines, with tempo, timers held in
  \<^verbatim>\<open>playbackTimer\<close>, notifications and keyboard stepping) and the earlier
  \<^verbatim>\<open>frontend/script.js\<close> (sample data, the finger heuristic, a fallback on a failed
  load). Both are embedded. The enhanced application keeps the names of its methods; a
  method of \<^verbatim>\<open>frontend/script.js\<close> whose name the enhanced application also uses
  carries the suffix \<open>_script\<close>, and the fields of its objects the prefix \<open>s_\<close>.

  JavaScript numbers that hold times and speeds are modelled as reals (rounding is not
  modelled), with the non-finite results of a division written out. The cursor
  \<^verbatim>\<open>currentNoteIndex\<close> is a natural number: it starts at 0 and the code only
  increments it, assigns 0 to it, or decrements it behind the guard \<^verbatim>\<open>> 0\<close>.
\<close>

subsection \<open>Numbers\<close>

datatype jsnum = Num real | PosInf | NegInf | NaN

text \<open>\<^verbatim>\<open>a / b\<close> on finite numbers: a zero divisor gives an infinity or NaN.\<close>

definition js_div :: "real \<Rightarrow> real \<Rightarrow> jsnum" where
  "js_div a b =
     (if b \<noteq> 0 then Num (a / b)
      else if 0 < a then PosInf
      else if a < 0 then NegInf
      else NaN)"

text \<open>\<^verbatim>\<open>Math.max(d, m)\<close> for a finite \<open>m\<close>.\<close>

fun js_max :: "jsnum \<Rightarrow> real \<Rightarrow> jsnum" where
  "js_max (Num x) m = Num (max x m)"
| "js_max PosInf m = PosInf"
| "js_max NegInf m = Num m"
| "js_max NaN m = NaN"

subsection \<open>Notes of the enhanced application\<close>

text \<open>
  A note as the backend delivers it, every field present: the code reads \<^verbatim>\<open>pitch\<close>,
  \<^verbatim>\<open>midi\<close>, \<^verbatim>\<open>offset\<close>, \<^verbatim>\<open>duration\<close>, \<^verbatim>\<open>finger\<close> (a number),
  \<^verbatim>\<open>finger_name\<close> and \<^verbatim>\<open>hand\<close>.
\<close>

record note_event =
  pitch :: string
  midi :: int
  offset :: real
  duration :: real
  finger :: nat
  finger_name :: string
  hand :: string

text \<open>\<^verbatim>\<open>this.notes[i]\<close>: \<^verbatim>\<open>undefined\<close> out of range.\<close>

definition note_at :: "'a list \<Rightarrow> nat \<Rightarrow> 'a option" where
  "note_at ns i = (if i < length ns then Some (ns ! i) else None)"

subsection \<open>The document of the enhanced application\<close>

text \<open>
  A piano key element: its \<^verbatim>\<open>data-midi\<close> attribute, the class \<^verbatim>\<open>active\<close>, and
  its finger indicator child (class \<^verbatim>\<open>show\<close> and text).
\<close>

record key_elem =
  data_note :: string
  data_midi :: int
  key_active :: bool
  indicator_show :: bool
  indicator_text :: "nat option"

text \<open>
  A finger ellipse of a hand diagram: its \<^verbatim>\<open>data-finger\<close> attribute and the two
  classes \<^verbatim>\<open>finger-base\<close> and \<^verbatim>\<open>finger-active\<close>.
\<close>

record finger_elem =
  data_finger :: nat
  finger_base :: bool
  finger_active :: bool

datatype button_label = PlayLabel | PauseLabel

record difficulty =
  level :: string
  score :: real
  d_total_notes :: int
  note_span :: int
  factors :: "string list"

text \<open>
  The elements the class reads and writes. Texts built by string interpolation are kept
  as the values interpolated (\<open>None\<close> is the text \<^verbatim>\<open>None\<close> that
  \<^verbatim>\<open>resetPlayback\<close> writes); the two hand containers are \<open>True\<close> when displayed
  (\<^verbatim>\<open>display: block\<close>); \<open>notifications\<close> collects the calls of
  \<^verbatim>\<open>showNotification\<close> (message, type) and \<open>console\<close> those of
  \<^verbatim>\<open>console.error\<close>.
\<close>

record dom =
  piano_keys :: "key_elem list"
  right_hand_svg :: "finger_elem list"
  left_hand_svg :: "finger_elem list"
  current_note :: "string option"
  finger_info :: "(nat \<times> string) option"
  hand_position :: "string option"
  current_time :: real
  play_pause :: button_label
  play_pause_disabled :: bool
  total_notes :: "int option"
  difficulty_badge :: "difficulty option"
  progress_fill :: real
  progress_text :: int
  notes_played :: nat
  tempo_display :: int
  left_hand_container :: bool
  right_hand_container :: bool
  notifications :: "(string \<times> string) list"
  console :: "string list"

text \<open>
  \<^verbatim>\<open>document.querySelector(sel)\<close> followed by a change of the element found: the
  first element in document order that matches is changed, none when nothing matches.
\<close>

fun update_first :: "('a \<Rightarrow> bool) \<Rightarrow> ('a \<Rightarrow> 'a) \<Rightarrow> 'a list \<Rightarrow> 'a list" where
  "update_first P f [] = []"
| "update_first P f (x # xs) = (if P x then f x # xs else x # update_first P f xs)"

definition clearKeyHighlights :: "dom \<Rightarrow> dom" where
  "clearKeyHighlights d =
     d\<lparr>piano_keys :=
         map (\<lambda>k. if indicator_show k then k\<lparr>indicator_show := False\<rparr> else k)
           (map (\<lambda>k. if key_active k then k\<lparr>key_active := False\<rparr> else k) (piano_keys d))\<rparr>"

definition clearFingerHighlights :: "dom \<Rightarrow> dom" where
  "clearFingerHighlights d =
     (let clear = (\<lambda>f. if finger_active f
                        then f\<lparr>finger_active := False, finger_base := True\<rparr> else f)
      in d\<lparr>right_hand_svg := map clear (right_hand_svg d),
            left_hand_svg := map clear (left_hand_svg d)\<rparr>)"

definition clearAllHighlights :: "dom \<Rightarrow> dom" where
  "clearAllHighlights d = clearFingerHighlights (clearKeyHighlights d)"

definition displayCurrentNote :: "note_event \<Rightarrow> dom \<Rightarrow> dom" where
  "displayCurrentNote n d =
     d\<lparr>current_note := Some (pitch n),
       finger_info := Some (finger n, finger_name n),
       hand_position := Some (if hand n = ''right'' then ''Right Hand'' else ''Left Hand''),
       current_time := offset n\<rparr>"

definition highlightKey :: "note_event \<Rightarrow> dom \<Rightarrow> dom" where
  "highlightKey n d =
     (let d1 = clearKeyHighlights d
      in d1\<lparr>piano_keys :=
            update_first (\<lambda>k. data_midi k = midi n)
              (\<lambda>k. k\<lparr>key_active := True, indicator_text := Some (finger n),
                      indicator_show := True\<rparr>)
              (piano_keys d1)\<rparr>)"

definition highlightFinger :: "note_event \<Rightarrow> dom \<Rightarrow> dom" where
  "highlightFinger n d =
     (let d1 = clearFingerHighlights d;
          mark = update_first (\<lambda>f. data_finger f = finger n)
                   (\<lambda>f. f\<lparr>finger_base := False, finger_active := True\<rparr>)
      in if hand n = ''right''
         then d1\<lparr>right_hand_svg := mark (right_hand_svg d1)\<rparr>
         else d1\<lparr>left_hand_svg := mark (left_hand_svg d1)\<rparr>)"

text \<open>
  The three calls by which \<^verbatim>\<open>playNextNote\<close> shows a note, in its order:
  \<^verbatim>\<open>displayCurrentNote(note); highlightKey(note); highlightFinger(note)\<close>.
\<close>

definition render :: "note_event \<Rightarrow> dom \<Rightarrow> dom" where
  "render n d = highlightFinger n (highlightKey n (displayCurrentNote n d))"

subsection \<open>The state of the enhanced application\<close>

text \<open>
  The fields of \<^verbatim>\<open>PianoLearningApp\<close>, the page, and what the browser holds for
  \<^verbatim>\<open>setTimeout\<close>: the pending timeouts whose callback is
  \<^verbatim>\<open>() => this.playNextNote()\<close>, each with its handle and its delay in milliseconds, and
  the next handle. A handle is a positive integer and \<^verbatim>\<open>null\<close> is \<open>None\<close>. The
  timeouts of notifications, of the resize handler and of \<^verbatim>\<open>playKey\<close> touch none of
  these fields and are not modelled.
\<close>

record app =
  "notes" :: "note_event list"
  handPositions :: "string list"
  currentNoteIndex :: nat
  isPlaying :: bool
  playbackSpeed :: real
  visibleHands :: string
  playbackTimer :: "nat option"
  doc :: dom
  timeouts :: "(nat \<times> jsnum) list"
  next_handle :: nat

datatype error = TypeError

text \<open>
  An event handler that throws leaves the fields as they were at the throw:
  \<open>Inl (e, s)\<close> is the exception \<open>e\<close> thrown in state \<open>s\<close>, \<open>Inr s\<close> a normal return.
\<close>

type_synonym 'a outcome = "(error \<times> 'a) + 'a"

fun state_of :: "'a outcome \<Rightarrow> 'a" where
  "state_of (Inl (e, s)) = s"
| "state_of (Inr s) = s"

definition setTimeout_playNextNote :: "jsnum \<Rightarrow> app \<Rightarrow> nat \<times> app" where
  "setTimeout_playNextNote d s =
     (next_handle s,
      s\<lparr>timeouts := timeouts s @ [(next_handle s, d)], next_handle := Suc (next_handle s)\<rparr>)"

definition clearTimeout :: "nat \<Rightarrow> app \<Rightarrow> app" where
  "clearTimeout h s = s\<lparr>timeouts := filter (\<lambda>t. fst t \<noteq> h) (timeouts s)\<rparr>"

definition showNotification :: "string \<Rightarrow> string \<Rightarrow> app \<Rightarrow> app" where
  "showNotification message type s =
     s\<lparr>doc := (doc s)\<lparr>notifications := notifications (doc s) @ [(message, type)]\<rparr>\<rparr>"

text \<open>\<^verbatim>\<open>Math.round(x)\<close> rounds half up.\<close>

definition Math_round :: "real \<Rightarrow> int" where
  "Math_round x = \<lfloor>x + 1 / 2\<rfloor>"

definition updateProgress :: "app \<Rightarrow> app" where
  "updateProgress s =
     (let progress = (if length (notes s) > 0
                      then real (currentNoteIndex s) / real (length (notes s)) * 100 else 0)
      in s\<lparr>doc := (doc s)\<lparr>progress_fill := progress,
                            progress_text := Math_round progress,
                            notes_played := currentNoteIndex s\<rparr>\<rparr>)"

text \<open>\<^verbatim>\<open>if (this.playbackTimer)\<close> holds for a handle other than \<^verbatim>\<open>null\<close> and 0.\<close>

definition pausePlayback :: "app \<Rightarrow> app" where
  "pausePlayback s =
     (let s1 = s\<lparr>isPlaying := False, doc := (doc s)\<lparr>play_pause := PlayLabel\<rparr>\<rparr>
      in case playbackTimer s1 of
           None \<Rightarrow> s1
         | Some h \<Rightarrow> if h \<noteq> 0 then clearTimeout h s1 else s1)"

definition resetPlayback :: "app \<Rightarrow> app" where
  "resetPlayback s =
     (let s1 = pausePlayback s;
          s2 = s1\<lparr>currentNoteIndex := 0\<rparr>;
          s3 = s2\<lparr>doc := clearAllHighlights (doc s2)\<rparr>;
          s4 = updateProgress s3
      in s4\<lparr>doc := (doc s4)\<lparr>current_note := None, finger_info := None,
                             hand_position := None, current_time := 0\<rparr>\<rparr>)"

text \<open>
  Past its guard \<^verbatim>\<open>playNextNote\<close> reads \<^verbatim>\<open>this.notes[this.currentNoteIndex]\<close>
  in range. \<^verbatim>\<open>nextNote\<close> is \<^verbatim>\<open>undefined\<close>, hence false, at the last note.
\<close>

definition playNextNote :: "app \<Rightarrow> app" where
  "playNextNote s =
     (if \<not> isPlaying s \<or> currentNoteIndex s \<ge> length (notes s)
      then showNotification ''Playback completed!'' ''success'' (pausePlayback s)
      else
        let n = notes s ! currentNoteIndex s;
            s1 = s\<lparr>doc := highlightFinger n (highlightKey n (displayCurrentNote n (doc s)))\<rparr>;
            s2 = updateProgress s1;
            nextNote = note_at (notes s2) (currentNoteIndex s2 + 1);
            delay = (case nextNote of
                       Some nx \<Rightarrow> js_div ((offset nx - offset n) * 1000) (playbackSpeed s2)
                     | None \<Rightarrow> js_div (duration n * 1000) (playbackSpeed s2));
            s3 = s2\<lparr>currentNoteIndex := currentNoteIndex s2 + 1\<rparr>;
            (h, s4) = setTimeout_playNextNote (js_max delay 100) s3
        in s4\<lparr>playbackTimer := Some h\<rparr>)"

definition startPlayback :: "app \<Rightarrow> app" where
  "startPlayback s =
     (if length (notes s) = 0
      then showNotification ''Please load a MIDI file first'' ''warning'' s
      else playNextNote (s\<lparr>isPlaying := True, doc := (doc s)\<lparr>play_pause := PauseLabel\<rparr>\<rparr>))"

definition togglePlayback :: "app \<Rightarrow> app" where
  "togglePlayback s = (if isPlaying s then pausePlayback s else startPlayback s)"

text \<open>\<^verbatim>\<open>parseFloat\<close> of the slider's value is taken as done: the argument is the number.\<close>

definition setTempo :: "real \<Rightarrow> app \<Rightarrow> app" where
  "setTempo speed s =
     s\<lparr>playbackSpeed := speed, doc := (doc s)\<lparr>tempo_display := Math_round (speed * 100)\<rparr>\<rparr>"

definition setVisibleHands :: "string \<Rightarrow> app \<Rightarrow> app" where
  "setVisibleHands hands s =
     (let s1 = s\<lparr>visibleHands := hands\<rparr>
      in if hands = ''right''
         then s1\<lparr>doc := (doc s1)\<lparr>left_hand_container := False, right_hand_container := True\<rparr>\<rparr>
         else if hands = ''left''
         then s1\<lparr>doc := (doc s1)\<lparr>left_hand_container := True, right_hand_container := False\<rparr>\<rparr>
         else s1\<lparr>doc := (doc s1)\<lparr>left_hand_container := True, right_hand_container := True\<rparr>\<rparr>)"

text \<open>
  \<^verbatim>\<open>displayCurrentNote(undefined)\<close> throws a TypeError at \<^verbatim>\<open>note.pitch\<close>, before
  it writes anything.
\<close>

definition displayCurrentNote_at :: "note_event option \<Rightarrow> app \<Rightarrow> app outcome" where
  "displayCurrentNote_at n s =
     (case n of
        None \<Rightarrow> Inl (TypeError, s)
      | Some n' \<Rightarrow> Inr (s\<lparr>doc := displayCurrentNote n' (doc s)\<rparr>))"

datatype key_code = Space | ArrowRight | ArrowLeft | KeyR | OtherKey

fun handleKeyboard :: "key_code \<Rightarrow> app \<Rightarrow> app outcome" where
  "handleKeyboard Space s = Inr (togglePlayback s)"
| "handleKeyboard ArrowRight s =
     (if \<not> isPlaying s \<and> currentNoteIndex s < length (notes s)
      then
        let s1 = s\<lparr>currentNoteIndex := currentNoteIndex s + 1\<rparr>
        in case displayCurrentNote_at (note_at (notes s1) (currentNoteIndex s1 - 1)) s1 of
             Inl thrown \<Rightarrow> Inl thrown
           | Inr s2 \<Rightarrow> Inr (updateProgress s2)
      else Inr s)"
| "handleKeyboard ArrowLeft s =
     (if \<not> isPlaying s \<and> currentNoteIndex s > 0
      then
        let s1 = s\<lparr>currentNoteIndex := currentNoteIndex s - 1\<rparr>
        in case displayCurrentNote_at (note_at (notes s1) (currentNoteIndex s1)) s1 of
             Inl thrown \<Rightarrow> Inl thrown
           | Inr s2 \<Rightarrow> Inr (updateProgress s2)
      else Inr s)"
| "handleKeyboard KeyR s = Inr (resetPlayback s)"
| "handleKeyboard OtherKey s = Inr s"

subsection \<open>Loading in the enhanced application\<close>

record payload =
  p_notes :: "note_event list"
  p_hand_positions :: "string list"
  p_difficulty :: "difficulty option"
  p_total_notes :: int

text \<open>
  How the request of \<^verbatim>\<open>loadMIDI\<close> ends: \<^verbatim>\<open>fetch\<close> rejects (network error), the
  status is not ok, \<^verbatim>\<open>response.json()\<close> rejects (parse error), or the body parses.
  A parsed body is taken to carry a \<^verbatim>\<open>notes\<close> array (possibly empty),
  \<^verbatim>\<open>hand_positions\<close> and \<^verbatim>\<open>total_notes\<close>; its \<^verbatim>\<open>difficulty\<close> may be missing
  (\<open>None\<close>), as when the backend answers with status 200 and a body that is not an
  analysis. \<^verbatim>\<open>loadMIDI\<close> writes no field before its last \<^verbatim>\<open>await\<close>, so its effect
  is one step taken when the request has ended.
\<close>

datatype 'p response = FetchRejected | NotOk | JsonRejected | Ok 'p

text \<open>
  \<^verbatim>\<open>displayDifficultyInfo(undefined)\<close> throws a TypeError at \<^verbatim>\<open>difficulty.level\<close>,
  before it writes anything.
\<close>

definition displayDifficultyInfo :: "difficulty option \<Rightarrow> app \<Rightarrow> app outcome" where
  "displayDifficultyInfo df s =
     (case df of
        None \<Rightarrow> Inl (TypeError, s)
      | Some d \<Rightarrow> Inr (s\<lparr>doc := (doc s)\<lparr>difficulty_badge := Some d\<rparr>\<rparr>))"

text \<open>
  The \<^verbatim>\<open>catch\<close> block of \<^verbatim>\<open>loadMIDI\<close>. It runs for whatever is thrown inside the
  \<^verbatim>\<open>try\<close> block, also for what \<^verbatim>\<open>displayDifficultyInfo\<close> throws after
  \<^verbatim>\<open>this.notes\<close> and \<^verbatim>\<open>this.handPositions\<close> have been assigned.
\<close>

definition loadMIDI_failed :: "app \<Rightarrow> app" where
  "loadMIDI_failed s =
     showNotification ''Error loading MIDI file. Make sure the backend is running.'' ''error''
       (s\<lparr>doc := (doc s)\<lparr>console := console (doc s) @ [''Error loading MIDI:'']\<rparr>\<rparr>)"

fun loadMIDI :: "payload response \<Rightarrow> app \<Rightarrow> app" where
  "loadMIDI (Ok data) s =
     (let s1 = s\<lparr>notes := p_notes data, handPositions := p_hand_positions data\<rparr>
      in case displayDifficultyInfo (p_difficulty data) s1 of
           Inl (e, s2) \<Rightarrow> loadMIDI_failed s2
         | Inr s2 \<Rightarrow>
             let s3 = s2\<lparr>doc := (doc s2)\<lparr>play_pause_disabled := False,
                                     total_notes := Some (p_total_notes data)\<rparr>\<rparr>
             in showNotification ''MIDI file loaded successfully!'' ''success'' s3)"
| "loadMIDI FetchRejected s = loadMIDI_failed s"
| "loadMIDI NotOk s = loadMIDI_failed s"
| "loadMIDI JsonRejected s = loadMIDI_failed s"

text \<open>
  The constructor, given the page as \<^verbatim>\<open>initializeApp\<close> has built it (keys and hand
  diagrams; their construction is layout and is not modelled).
\<close>

definition constructor :: "dom \<Rightarrow> app" where
  "constructor page =
     \<lparr>notes = [], handPositions = [], currentNoteIndex = 0, isPlaying = False,
      playbackSpeed = 1, visibleHands = ''both'', playbackTimer = None,
      doc = page, timeouts = [], next_handle = 1\<rparr>"

subsection \<open>Events of the enhanced application\<close>

text \<open>
  What \<^verbatim>\<open>setupEventListeners\<close> wires, the end of a load request, and the firing of a
  timeout. A timeout fires once, if it is still pending; a cleared one never fires. An
  exception thrown by a handler is reported by the browser and the fields keep the
  values they had at the throw.
\<close>

datatype event =
    LoadEnds "payload response"
  | ClickPlayPause
  | ClickReset
  | TempoInput real
  | HandSelect string
  | KeyDown key_code
  | TimeoutFires nat

fun step :: "event \<Rightarrow> app \<Rightarrow> app" where
  "step (LoadEnds r) s = loadMIDI r s"
| "step ClickPlayPause s = togglePlayback s"
| "step ClickReset s = resetPlayback s"
| "step (TempoInput v) s = setTempo v s"
| "step (HandSelect h) s = setVisibleHands h s"
| "step (KeyDown k) s = state_of (handleKeyboard k s)"
| "step (TimeoutFires h) s =
     (if h \<in> fst ` set (timeouts s)
      then playNextNote (s\<lparr>timeouts := filter (\<lambda>t. fst t \<noteq> h) (timeouts s)\<rparr>)
      else s)"

fun run :: "event list \<Rightarrow> app \<Rightarrow> app" where
  "run [] s = s"
| "run (e # es) s = run es (step e s)"

subsection \<open>The earlier \<^verbatim>\<open>frontend/script.js\<close>\<close>

record sample_note =
  s_pitch :: string
  s_midi :: int
  s_duration :: real
  s_finger :: string
  s_hand :: string

text \<open>\<^verbatim>\<open>a % b\<close> on integers, \<open>b\<close> not 0: the result has the sign of \<open>a\<close>.\<close>

definition js_rem :: "int \<Rightarrow> int \<Rightarrow> int" where
  "js_rem a b = sgn a * (\<bar>a\<bar> mod \<bar>b\<bar>)"

definition assignFingerToNote :: "sample_note \<Rightarrow> string" where
  "assignFingerToNote n =
     (let m = s_midi n;
          octave = m div 12;
          noteInOctave = js_rem m 12
      in if noteInOctave \<le> 1 then ''thumb''
         else if noteInOctave \<le> 3 then ''index''
         else if noteInOctave \<le> 5 then ''middle''
         else if noteInOctave \<le> 7 then ''ring''
         else if noteInOctave \<le> 9 then ''pinky''
         else ''pinky'')"

record s_key_elem =
  s_data_midi :: int
  s_key_active :: bool

record s_finger_elem =
  s_id :: string
  s_finger_active :: bool

text \<open>
  The page of \<^verbatim>\<open>frontend/script.js\<close>: the keys, the finger circles of the one hand
  diagram (the elements with an id that are modelled), the three info texts as the values
  interpolated, the button and the console.
\<close>

record s_dom =
  s_piano_keys :: "s_key_elem list"
  s_hand_group :: "s_finger_elem list"
  s_current_note :: "(string \<times> int) option"
  s_finger_info :: "(string \<times> string) option"
  s_hand_position :: "(string \<times> string) option"
  s_play_pause :: button_label
  s_console :: "string list"

text \<open>
  \<open>s_timeouts\<close> holds the delays of the pending timeouts of \<^verbatim>\<open>playNextNote\<close>;
  their handles are not kept by the code, and \<^verbatim>\<open>animationId\<close> is never assigned.
\<close>

record app_script =
  s_currentNoteIndex :: nat
  s_notes :: "sample_note list"
  s_isPlaying :: bool
  s_animationId :: "nat option"
  s_doc :: s_dom
  s_timeouts :: "real list"

definition clearHighlights :: "s_dom \<Rightarrow> s_dom" where
  "clearHighlights d =
     d\<lparr>s_piano_keys := map (\<lambda>k. k\<lparr>s_key_active := False\<rparr>) (s_piano_keys d),
       s_hand_group := map (\<lambda>f. f\<lparr>s_finger_active := False\<rparr>) (s_hand_group d)\<rparr>"

definition updateCurrentNote :: "sample_note \<Rightarrow> s_dom \<Rightarrow> s_dom" where
  "updateCurrentNote n d =
     d\<lparr>s_current_note := Some (s_pitch n, s_midi n),
       s_finger_info := Some (s_finger n, s_pitch n),
       s_hand_position := Some (s_hand n, s_finger n)\<rparr>"

text \<open>
  \<^verbatim>\<open>showHandPosition(undefined)\<close> clears the highlights and then throws a TypeError
  at \<^verbatim>\<open>note.midi\<close>.
\<close>

definition showHandPosition :: "sample_note option \<Rightarrow> app_script \<Rightarrow> app_script outcome" where
  "showHandPosition n s =
     (let d1 = clearHighlights (s_doc s)
      in case n of
           None \<Rightarrow> Inl (TypeError, s\<lparr>s_doc := d1\<rparr>)
         | Some n' \<Rightarrow>
             let d2 = d1\<lparr>s_piano_keys :=
                         update_first (\<lambda>k. s_data_midi k = s_midi n')
                           (\<lambda>k. k\<lparr>s_key_active := True\<rparr>) (s_piano_keys d1)\<rparr>;
                 d3 = d2\<lparr>s_hand_group :=
                         update_first (\<lambda>f. s_id f = s_finger n')
                           (\<lambda>f. f\<lparr>s_finger_active := True\<rparr>) (s_hand_group d2)\<rparr>
             in Inr (s\<lparr>s_doc := updateCurrentNote n' d3\<rparr>))"

definition updateInfo :: "app_script \<Rightarrow> app_script outcome" where
  "updateInfo s =
     (if length (s_notes s) > 0
      then showHandPosition (note_at (s_notes s) (s_currentNoteIndex s)) s
      else Inr s)"

definition sample_data :: "sample_note list" where
  "sample_data =
     [\<lparr>s_pitch = ''C4'', s_midi = 60, s_duration = 1, s_finger = ''thumb'', s_hand = ''right''\<rparr>,
      \<lparr>s_pitch = ''D4'', s_midi = 62, s_duration = 1, s_finger = ''index'', s_hand = ''right''\<rparr>,
      \<lparr>s_pitch = ''E4'', s_midi = 64, s_duration = 1, s_finger = ''middle'', s_hand = ''right''\<rparr>,
      \<lparr>s_pitch = ''F4'', s_midi = 65, s_duration = 1, s_finger = ''thumb'', s_hand = ''right''\<rparr>,
      \<lparr>s_pitch = ''G4'', s_midi = 67, s_duration = 1, s_finger = ''index'', s_hand = ''right''\<rparr>,
      \<lparr>s_pitch = ''A4'', s_midi = 69, s_duration = 1, s_finger = ''middle'', s_hand = ''right''\<rparr>,
      \<lparr>s_pitch = ''B4'', s_midi = 71, s_duration = 1, s_finger = ''ring'', s_hand = ''right''\<rparr>,
      \<lparr>s_pitch = ''C5'', s_midi = 72, s_duration = 1, s_finger = ''pinky'', s_hand = ''right''\<rparr>]"

definition loadSampleData :: "app_script \<Rightarrow> app_script outcome" where
  "loadSampleData s = updateInfo (s\<lparr>s_notes := sample_data\<rparr>)"

text \<open>
  \<^verbatim>\<open>cancelAnimationFrame\<close> cancels no timeout, so \<^verbatim>\<open>pause\<close> leaves
  \<open>s_timeouts\<close> as it is.
\<close>

definition pause :: "app_script \<Rightarrow> app_script" where
  "pause s = s\<lparr>s_isPlaying := False, s_doc := (s_doc s)\<lparr>s_play_pause := PlayLabel\<rparr>\<rparr>"

definition playNextNote_script :: "app_script \<Rightarrow> app_script outcome" where
  "playNextNote_script s =
     (if \<not> s_isPlaying s \<or> s_currentNoteIndex s \<ge> length (s_notes s)
      then Inr (pause s)
      else
        let n = s_notes s ! s_currentNoteIndex s
        in case showHandPosition (Some n) s of
             Inl thrown \<Rightarrow> Inl thrown
           | Inr s1 \<Rightarrow> Inr (s1\<lparr>s_timeouts := s_timeouts s1 @ [s_duration n * 1000]\<rparr>))"

definition play :: "app_script \<Rightarrow> app_script outcome" where
  "play s =
     (if length (s_notes s) = 0 then Inr s
      else playNextNote_script
             (s\<lparr>s_isPlaying := True, s_doc := (s_doc s)\<lparr>s_play_pause := PauseLabel\<rparr>\<rparr>))"

record reply =
  r_success :: bool
  r_notes :: "sample_note list"
  r_total_notes :: int
  r_error :: string

definition console_script :: "string \<Rightarrow> app_script \<Rightarrow> app_script" where
  "console_script line s = s\<lparr>s_doc := (s_doc s)\<lparr>s_console := s_console (s_doc s) @ [line]\<rparr>\<rparr>"

text \<open>The \<^verbatim>\<open>catch\<close> block of \<^verbatim>\<open>loadMIDI\<close> in \<^verbatim>\<open>frontend/script.js\<close>.\<close>

definition loadMIDI_script_catch :: "app_script \<Rightarrow> app_script outcome" where
  "loadMIDI_script_catch s = loadSampleData (console_script ''Error loading MIDI file:'' s)"

definition loadMIDI_script :: "reply response \<Rightarrow> app_script \<Rightarrow> app_script outcome" where
  "loadMIDI_script r s =
     (let s0 = console_script ''Loading MIDI file from backend...'' s
      in case r of
           Ok data \<Rightarrow>
             if r_success data
             then
               let s1 = s0\<lparr>s_notes := r_notes data, s_currentNoteIndex := 0\<rparr>
               in case updateInfo s1 of
                    Inl (e, s2) \<Rightarrow> loadMIDI_script_catch s2
                  | Inr s2 \<Rightarrow> Inr (console_script ''Loaded notes from MIDI file'' s2)
             else Inr (console_script ''Failed to load MIDI data:'' s0)
         | FetchRejected \<Rightarrow> loadMIDI_script_catch s0
         | NotOk \<Rightarrow> loadMIDI_script_catch s0
         | JsonRejected \<Rightarrow> loadMIDI_script_catch s0)"

subsection \<open>Names for the proofs\<close>

text \<open>
  The element changes that the highlight functions apply, under names, and the two state
  predicates the proofs carry along the events.
\<close>

definition clear_key :: "key_elem \<Rightarrow> key_elem" where
  "clear_key k = k\<lparr>key_active := False, indicator_show := False\<rparr>"

definition mark_key :: "note_event \<Rightarrow> key_elem \<Rightarrow> key_elem" where
  "mark_key n k =
     k\<lparr>key_active := True, indicator_text := Some (finger n), indicator_show := True\<rparr>"

definition clear_finger :: "finger_elem \<Rightarrow> finger_elem" where
  "clear_finger f =
     (if finger_active f then f\<lparr>finger_active := False, finger_base := True\<rparr> else f)"

definition mark_finger :: "finger_elem \<Rightarrow> finger_elem" where
  "mark_finger f = f\<lparr>finger_base := False, finger_active := True\<rparr>"

text \<open>
  At most one timeout is pending, and a pending one is the one \<^verbatim>\<open>playbackTimer\<close>
  holds while the application is playing.
\<close>

definition one_pending :: "app \<Rightarrow> bool" where
  "one_pending s =
     (0 < next_handle s \<and> length (timeouts s) \<le> 1 \<and>
      (\<forall>t \<in> set (timeouts s). isPlaying s \<and> playbackTimer s = Some (fst t) \<and> fst t \<noteq> 0))"

definition cursor_in_range :: "app \<Rightarrow> bool" where
  "cursor_in_range s = (currentNoteIndex s \<le> length (notes s))"

subsection \<open>Concrete inputs\<close>

definition key_of :: "string \<Rightarrow> int \<Rightarrow> key_elem" where
  "key_of name m =
     \<lparr>data_note = name, data_midi = m, key_active = False, indicator_show = False,
      indicator_text = None\<rparr>"

definition finger_of :: "nat \<Rightarrow> finger_elem" where
  "finger_of i = \<lparr>data_finger = i, finger_base = True, finger_active = False\<rparr>"

definition small_page :: dom where
  "small_page =
     \<lparr>piano_keys = [key_of ''C4'' 60, key_of ''D4'' 62, key_of ''C#4'' 61],
      right_hand_svg = [finger_of 1, finger_of 2, finger_of 3, finger_of 4, finger_of 5],
      left_hand_svg = [finger_of 1, finger_of 2, finger_of 3, finger_of 4, finger_of 5],
      current_note = None, finger_info = None, hand_position = None, current_time = 0,
      play_pause = PlayLabel, play_pause_disabled = True, total_notes = None,
      difficulty_badge = None, progress_fill = 0, progress_text = 0, notes_played = 0,
      tempo_display = 100, left_hand_container = True, right_hand_container = True,
      notifications = [], console = []\<rparr>"

definition note_c4 :: note_event where
  "note_c4 = \<lparr>pitch = ''C4'', midi = 60, offset = 0, duration = 1, finger = 1,
              finger_name = ''Thumb'', hand = ''right''\<rparr>"

definition note_d4 :: note_event where
  "note_d4 = \<lparr>pitch = ''D4'', midi = 62, offset = 1, duration = 1, finger = 2,
              finger_name = ''Index'', hand = ''right''\<rparr>"

definition easy :: difficulty where
  "easy = \<lparr>level = ''Beginner'', score = 1, d_total_notes = 2, note_span = 2, factors = []\<rparr>"

definition payload_of :: "note_event list \<Rightarrow> payload" where
  "payload_of ns = \<lparr>p_notes = ns, p_hand_positions = [], p_difficulty = Some easy,
                    p_total_notes = int (length ns)\<rparr>"

text \<open>The application with a sequence, a cursor and a speed, playing or not.\<close>

definition playing :: "note_event list \<Rightarrow> nat \<Rightarrow> real \<Rightarrow> app" where
  "playing ns i v =
     (constructor small_page)\<lparr>notes := ns, currentNoteIndex := i, isPlaying := True,
                               playbackSpeed := v\<rparr>"

definition paused :: "note_event list \<Rightarrow> nat \<Rightarrow> app" where
  "paused ns i = (constructor small_page)\<lparr>notes := ns, currentNoteIndex := i\<rparr>"

definition note_of_midi :: "int \<Rightarrow> sample_note" where
  "note_of_midi m =
     \<lparr>s_pitch = '''', s_midi = m, s_duration = 1, s_finger = '''', s_hand = ''right''\<rparr>"

definition script_app :: "sample_note list \<Rightarrow> nat \<Rightarrow> app_script" where
  "script_app ns i =
     \<lparr>s_currentNoteIndex = i, s_notes = ns, s_isPlaying = False, s_animationId = None,
      s_doc = \<lparr>s_piano_keys = [\<lparr>s_data_midi = 60, s_key_active = False\<rparr>,
                               \<lparr>s_data_midi = 61, s_key_active = False\<rparr>],
               s_hand_group = [\<lparr>s_id = ''thumb'', s_finger_active = False\<rparr>,
                               \<lparr>s_id = ''index'', s_finger_active = False\<rparr>],
               s_current_note = None, s_finger_info = None, s_hand_position = None,
               s_play_pause = PlayLabel, s_console = []\<rparr>,
      s_timeouts = []\<rparr>"

text \<open>A parsed body without \<^verbatim>\<open>difficulty\<close>, and a reply that reports no success.\<close>

definition bare_payload :: "note_event list \<Rightarrow> payload" where
  "bare_payload ns = \<lparr>p_notes = ns, p_hand_positions = [], p_difficulty = None,
                      p_total_notes = int (length ns)\<rparr>"

definition failure_reply :: reply where
  "failure_reply = \<lparr>r_success = False, r_notes = [], r_total_notes = 0,
                     r_error = ''no file''\<rparr>"

definition demo_reply :: reply where
  "demo_reply = \<lparr>r_success = True, r_notes = sample_data, r_total_notes = 8, r_error = ''''\<rparr>"

section \<open>Properties\<close>

lemmas model_defs = constructor_def loadMIDI_failed_def showNotification_def
  displayDifficultyInfo_def togglePlayback_def startPlayback_def playNextNote_def
  pausePlayback_def clearTimeout_def setTimeout_playNextNote_def updateProgress_def
  resetPlayback_def note_at_def js_div_def displayCurrentNote_at_def Let_def payload_of_def

subsection \<open>Fields that the operations keep\<close>

lemma pausePlayback_fields:
  "isPlaying (pausePlayback s) = False"
  "currentNoteIndex (pausePlayback s) = currentNoteIndex s"
  "notes (pausePlayback s) = notes s"
  "playbackSpeed (pausePlayback s) = playbackSpeed s"
  "playbackTimer (pausePlayback s) = playbackTimer s"
  "next_handle (pausePlayback s) = next_handle s"
  "doc (pausePlayback s) = (doc s)\<lparr>play_pause := PlayLabel\<rparr>"
  by (simp_all add: pausePlayback_def clearTimeout_def Let_def split: option.split)

lemma timeouts_pausePlayback:
  "timeouts (pausePlayback s) =
     (case playbackTimer s of None \<Rightarrow> timeouts s
      | Some h \<Rightarrow> if h \<noteq> 0 then filter (\<lambda>t. fst t \<noteq> h) (timeouts s) else timeouts s)"
  by (simp add: pausePlayback_def clearTimeout_def Let_def split: option.split)

lemma timeouts_pausePlayback_subset: "set (timeouts (pausePlayback s)) \<subseteq> set (timeouts s)"
  by (auto simp: timeouts_pausePlayback split: option.split)

lemma pausePlayback_overwrites:
  "pausePlayback (s\<lparr>isPlaying := b, doc := (doc s)\<lparr>play_pause := l\<rparr>\<rparr>) = pausePlayback s"
  by (simp add: pausePlayback_def clearTimeout_def Let_def split: option.split)

lemma showNotification_fields:
  "isPlaying (showNotification m t s) = isPlaying s"
  "currentNoteIndex (showNotification m t s) = currentNoteIndex s"
  "notes (showNotification m t s) = notes s"
  "timeouts (showNotification m t s) = timeouts s"
  "playbackTimer (showNotification m t s) = playbackTimer s"
  "next_handle (showNotification m t s) = next_handle s"
  "playbackSpeed (showNotification m t s) = playbackSpeed s"
  "notifications (doc (showNotification m t s)) = notifications (doc s) @ [(m, t)]"
  by (simp_all add: showNotification_def)

lemma updateProgress_fields:
  "isPlaying (updateProgress s) = isPlaying s"
  "currentNoteIndex (updateProgress s) = currentNoteIndex s"
  "notes (updateProgress s) = notes s"
  "timeouts (updateProgress s) = timeouts s"
  "playbackTimer (updateProgress s) = playbackTimer s"
  "next_handle (updateProgress s) = next_handle s"
  "playbackSpeed (updateProgress s) = playbackSpeed s"
  "current_note (doc (updateProgress s)) = current_note (doc s)"
  "finger_info (doc (updateProgress s)) = finger_info (doc s)"
  "hand_position (doc (updateProgress s)) = hand_position (doc s)"
  "current_time (doc (updateProgress s)) = current_time (doc s)"
  "piano_keys (doc (updateProgress s)) = piano_keys (doc s)"
  "right_hand_svg (doc (updateProgress s)) = right_hand_svg (doc s)"
  "left_hand_svg (doc (updateProgress s)) = left_hand_svg (doc s)"
  "notifications (doc (updateProgress s)) = notifications (doc s)"
  by (simp_all add: updateProgress_def Let_def)

lemma resetPlayback_fields:
  "isPlaying (resetPlayback s) = False"
  "currentNoteIndex (resetPlayback s) = 0"
  "notes (resetPlayback s) = notes s"
  "timeouts (resetPlayback s) = timeouts (pausePlayback s)"
  "playbackTimer (resetPlayback s) = playbackTimer s"
  "next_handle (resetPlayback s) = next_handle s"
  by (simp_all add: resetPlayback_def updateProgress_fields pausePlayback_fields Let_def)

lemma loadMIDI_fields:
  "isPlaying (loadMIDI r s) = isPlaying s"
  "currentNoteIndex (loadMIDI r s) = currentNoteIndex s"
  "timeouts (loadMIDI r s) = timeouts s"
  "playbackTimer (loadMIDI r s) = playbackTimer s"
  "next_handle (loadMIDI r s) = next_handle s"
  "playbackSpeed (loadMIDI r s) = playbackSpeed s"
  by (cases r;
      simp add: loadMIDI_failed_def showNotification_def displayDifficultyInfo_def Let_def
        split: option.split)+

lemma loadMIDI_failed_fields:
  "notes (loadMIDI_failed s) = notes s"
  "currentNoteIndex (loadMIDI_failed s) = currentNoteIndex s"
  "notifications (doc (loadMIDI_failed s)) =
     notifications (doc s) @
       [(''Error loading MIDI file. Make sure the backend is running.'', ''error'')]"
  by (simp_all add: loadMIDI_failed_def showNotification_def)


lemma displayed_fields:
  "isPlaying (state_of (case displayCurrentNote_at n s of
       Inl thrown \<Rightarrow> Inl thrown | Inr s2 \<Rightarrow> Inr (updateProgress s2))) = isPlaying s"
  "timeouts (state_of (case displayCurrentNote_at n s of
       Inl thrown \<Rightarrow> Inl thrown | Inr s2 \<Rightarrow> Inr (updateProgress s2))) = timeouts s"
  "playbackTimer (state_of (case displayCurrentNote_at n s of
       Inl thrown \<Rightarrow> Inl thrown | Inr s2 \<Rightarrow> Inr (updateProgress s2))) = playbackTimer s"
  "next_handle (state_of (case displayCurrentNote_at n s of
       Inl thrown \<Rightarrow> Inl thrown | Inr s2 \<Rightarrow> Inr (updateProgress s2))) = next_handle s"
  "notes (state_of (case displayCurrentNote_at n s of
       Inl thrown \<Rightarrow> Inl thrown | Inr s2 \<Rightarrow> Inr (updateProgress s2))) = notes s"
  by (cases n; simp add: displayCurrentNote_at_def updateProgress_fields)+

lemma ArrowRight_fields:
  "isPlaying (state_of (handleKeyboard ArrowRight s)) = isPlaying s"
  "timeouts (state_of (handleKeyboard ArrowRight s)) = timeouts s"
  "playbackTimer (state_of (handleKeyboard ArrowRight s)) = playbackTimer s"
  "next_handle (state_of (handleKeyboard ArrowRight s)) = next_handle s"
  "notes (state_of (handleKeyboard ArrowRight s)) = notes s"
  by (simp_all add: displayed_fields Let_def)

lemma ArrowLeft_fields:
  "isPlaying (state_of (handleKeyboard ArrowLeft s)) = isPlaying s"
  "timeouts (state_of (handleKeyboard ArrowLeft s)) = timeouts s"
  "playbackTimer (state_of (handleKeyboard ArrowLeft s)) = playbackTimer s"
  "next_handle (state_of (handleKeyboard ArrowLeft s)) = next_handle s"
  "notes (state_of (handleKeyboard ArrowLeft s)) = notes s"
  by (simp_all add: displayed_fields Let_def)

lemma showHandPosition_fields:
  "s_notes (state_of (showHandPosition n s)) = s_notes s"
  "s_currentNoteIndex (state_of (showHandPosition n s)) = s_currentNoteIndex s"
  "s_isPlaying (state_of (showHandPosition n s)) = s_isPlaying s"
  "s_timeouts (state_of (showHandPosition n s)) = s_timeouts s"
  by (cases n; simp add: showHandPosition_def Let_def)+

lemma showHandPosition_returns: "\<exists>s'. showHandPosition (Some n) s = Inr s'"
  by (simp add: showHandPosition_def Let_def)

lemma updateInfo_fields:
  "s_notes (state_of (updateInfo s)) = s_notes s"
  "s_currentNoteIndex (state_of (updateInfo s)) = s_currentNoteIndex s"
  "s_isPlaying (state_of (updateInfo s)) = s_isPlaying s"
  "s_timeouts (state_of (updateInfo s)) = s_timeouts s"
  by (simp_all add: updateInfo_def showHandPosition_fields)

lemma updateInfo_returns:
  assumes "s_currentNoteIndex s = 0"
  shows "\<exists>s'. updateInfo s = Inr s'"
  using assms
  by (cases "s_notes s") (simp_all add: updateInfo_def note_at_def showHandPosition_returns)

lemma console_script_fields:
  "s_notes (console_script l s) = s_notes s"
  "s_currentNoteIndex (console_script l s) = s_currentNoteIndex s"
  "s_isPlaying (console_script l s) = s_isPlaying s"
  "s_timeouts (console_script l s) = s_timeouts s"
  by (simp_all add: console_script_def)

lemma loadMIDI_script_catch_fields:
  "s_notes (state_of (loadMIDI_script_catch t)) = sample_data"
  "s_currentNoteIndex (state_of (loadMIDI_script_catch t)) = s_currentNoteIndex t"
  "s_isPlaying (state_of (loadMIDI_script_catch t)) = s_isPlaying t"
  "s_timeouts (state_of (loadMIDI_script_catch t)) = s_timeouts t"
  by (simp_all add: loadMIDI_script_catch_def loadSampleData_def updateInfo_fields
      console_script_fields)

lemma showHandPosition_console:
  "s_console (s_doc (state_of (showHandPosition n s))) = s_console (s_doc s)"
  by (cases n; simp add: showHandPosition_def clearHighlights_def updateCurrentNote_def Let_def)

lemma updateInfo_console: "s_console (s_doc (state_of (updateInfo s))) = s_console (s_doc s)"
  by (simp add: updateInfo_def showHandPosition_console)

lemma loadMIDI_script_catch_console:
  "s_console (s_doc (state_of (loadMIDI_script_catch t))) =
     s_console (s_doc t) @ [''Error loading MIDI file:'']"
  by (simp add: loadMIDI_script_catch_def loadSampleData_def updateInfo_console
      console_script_def)

lemma loadMIDI_without_difficulty:
  assumes "p_difficulty data = None"
  shows "loadMIDI (Ok data) s =
           loadMIDI_failed (s\<lparr>notes := p_notes data, handPositions := p_hand_positions data\<rparr>)"
  using assms by (simp add: displayDifficultyInfo_def Let_def)

lemma length_sample_data: "length sample_data = 8"
  by (simp add: sample_data_def)

subsection \<open>Loading\<close>

lemma loadMIDI_script_success:
  assumes "r_success data"
  shows "\<exists>s'. loadMIDI_script (Ok data) t = Inr s' \<and> s_notes s' = r_notes data
           \<and> s_currentNoteIndex s' = 0 \<and> s_isPlaying s' = s_isPlaying t
           \<and> s_timeouts s' = s_timeouts t"
proof -
  define s1 where
    "s1 = (console_script ''Loading MIDI file from backend...'' t)
            \<lparr>s_notes := r_notes data, s_currentNoteIndex := 0\<rparr>"
  obtain s2 where s2: "updateInfo s1 = Inr s2"
    using updateInfo_returns [of s1] by (auto simp: s1_def)
  have f: "s_notes s2 = r_notes data" "s_currentNoteIndex s2 = 0"
    "s_isPlaying s2 = s_isPlaying t" "s_timeouts s2 = s_timeouts t"
    using updateInfo_fields [of s1] unfolding s2 by (simp_all add: s1_def console_script_fields)
  have "loadMIDI_script (Ok data) t = Inr (console_script ''Loaded notes from MIDI file'' s2)"
    using assms s2 by (simp add: loadMIDI_script_def Let_def s1_def)
  then show ?thesis
    by (simp add: console_script_fields f)
qed

text \<open>
  Claim C1, as the code has it. A successful load puts the delivered notes in place of
  the stored sequence, whatever was stored. It leaves \<^verbatim>\<open>isPlaying\<close> as it was and
  cancels nothing: the pending timeouts and \<^verbatim>\<open>playbackTimer\<close> are unchanged. The
  \<^verbatim>\<open>loadMIDI\<close> of \<^verbatim>\<open>frontend/script.js\<close>, on a reply that reports success, returns
  normally with the delivered notes stored and the cursor at 0, and also leaves
  \<^verbatim>\<open>isPlaying\<close> and its timeouts as they were. (Nothing is said here of the cursor of
  the enhanced application after a load.)
\<close>

theorem load_replaces_sequence:
  assumes "r_success rep"
  shows "notes (loadMIDI (Ok data) s) = p_notes data
       \<and> isPlaying (loadMIDI (Ok data) s) = isPlaying s
       \<and> timeouts (loadMIDI (Ok data) s) = timeouts s
       \<and> playbackTimer (loadMIDI (Ok data) s) = playbackTimer s
       \<and> (\<exists>t'. loadMIDI_script (Ok rep) t = Inr t' \<and> s_notes t' = r_notes rep
              \<and> s_currentNoteIndex t' = 0 \<and> s_isPlaying t' = s_isPlaying t
              \<and> s_timeouts t' = s_timeouts t)"
proof -
  have "notes (loadMIDI (Ok data) s) = p_notes data"
    by (simp add: showNotification_def displayDifficultyInfo_def loadMIDI_failed_def Let_def
        split: option.split)
  then show ?thesis
    using loadMIDI_script_success [OF assms, of t]
    by (simp add: loadMIDI_fields del: loadMIDI.simps)
qed

text \<open>
  The theorem at a load of one note into an application that is playing two, and at the
  sample reply loaded into \<^verbatim>\<open>frontend/script.js\<close> with its cursor at 5.
\<close>

theorem load_replaces_sequence_witness:
  "r_success demo_reply
   \<and> notes (loadMIDI (Ok (payload_of [note_c4])) (playing [note_c4, note_d4] 1 1)) = [note_c4]
   \<and> isPlaying (loadMIDI (Ok (payload_of [note_c4])) (playing [note_c4, note_d4] 1 1))
   \<and> s_notes (state_of (loadMIDI_script (Ok demo_reply) (script_app [] 5))) = sample_data
   \<and> s_currentNoteIndex (state_of (loadMIDI_script (Ok demo_reply) (script_app [] 5))) = 0"
  using load_replaces_sequence [of demo_reply "payload_of [note_c4]"
      "playing [note_c4, note_d4] 1 1" "script_app [] 5"]
  by (auto simp: demo_reply_def payload_of_def playing_def)

text \<open>
  Claim C1 as stated fails: the application loads two notes and is started, and a second
  load ends while it plays. After that load it still plays, its cursor is 1 and the
  timeout armed by the first note is still pending.
\<close>

theorem load_keeps_playing_counterexample:
  "isPlaying (run [LoadEnds (Ok (payload_of [note_c4, note_d4])), ClickPlayPause,
        LoadEnds (Ok (payload_of [note_d4, note_c4]))] (constructor small_page)) = True
   \<and> currentNoteIndex (run [LoadEnds (Ok (payload_of [note_c4, note_d4])), ClickPlayPause,
        LoadEnds (Ok (payload_of [note_d4, note_c4]))] (constructor small_page)) = 1
   \<and> timeouts (run [LoadEnds (Ok (payload_of [note_c4, note_d4])), ClickPlayPause,
        LoadEnds (Ok (payload_of [note_d4, note_c4]))] (constructor small_page))
       = [(1, Num 1000)]"
  by (simp add: model_defs note_c4_def note_d4_def)

text \<open>
  Claim C10, as the code has it. The enhanced application has no demo sequence and
  substitutes nothing. When the request itself fails (network error, status not ok, or a
  body that does not parse) it shows the error notification and keeps its sequence,
  cursor, \<^verbatim>\<open>isPlaying\<close> and timeouts as they were. When the body parses but has no
  \<^verbatim>\<open>difficulty\<close>, it shows the same error notification after the stored sequence
  has been overwritten with the notes of the body; cursor, \<^verbatim>\<open>isPlaying\<close> and timeouts
  are as before. \<^verbatim>\<open>frontend/script.js\<close>, when the request itself fails, stores its
  sample sequence of eight notes (also when \<^verbatim>\<open>updateInfo\<close> then throws), leaves
  \<^verbatim>\<open>isPlaying\<close> as it was, and reports by two lines on the console and nothing else;
  on a reply that reports no success it returns normally, substitutes nothing and writes
  to the console only. (Nothing is said here of the cursor of \<^verbatim>\<open>frontend/script.js\<close>
  after the fallback.)
\<close>

theorem failed_load_outcome:
  assumes "r \<in> {FetchRejected, NotOk, JsonRejected}"
    and "p_difficulty data = None"
    and "r' \<in> {FetchRejected, NotOk, JsonRejected}"
    and "\<not> r_success rep"
  shows "notifications (doc (loadMIDI r s)) =
           notifications (doc s) @
             [(''Error loading MIDI file. Make sure the backend is running.'', ''error'')]
       \<and> notes (loadMIDI r s) = notes s
       \<and> currentNoteIndex (loadMIDI r s) = currentNoteIndex s
       \<and> isPlaying (loadMIDI r s) = isPlaying s
       \<and> timeouts (loadMIDI r s) = timeouts s
       \<and> notifications (doc (loadMIDI (Ok data) s)) =
           notifications (doc s) @
             [(''Error loading MIDI file. Make sure the backend is running.'', ''error'')]
       \<and> notes (loadMIDI (Ok data) s) = p_notes data
       \<and> currentNoteIndex (loadMIDI (Ok data) s) = currentNoteIndex s
       \<and> isPlaying (loadMIDI (Ok data) s) = isPlaying s
       \<and> timeouts (loadMIDI (Ok data) s) = timeouts s
       \<and> s_notes (state_of (loadMIDI_script r' t)) = sample_data
       \<and> length (s_notes (state_of (loadMIDI_script r' t))) = 8
       \<and> s_isPlaying (state_of (loadMIDI_script r' t)) = s_isPlaying t
       \<and> s_console (s_doc (state_of (loadMIDI_script r' t))) =
           s_console (s_doc t) @
             [''Loading MIDI file from backend...'', ''Error loading MIDI file:'']
       \<and> loadMIDI_script (Ok rep) t =
           Inr (console_script ''Failed to load MIDI data:''
                  (console_script ''Loading MIDI file from backend...'' t))
       \<and> s_notes (state_of (loadMIDI_script (Ok rep) t)) = s_notes t
       \<and> s_currentNoteIndex (state_of (loadMIDI_script (Ok rep) t)) = s_currentNoteIndex t
       \<and> s_isPlaying (state_of (loadMIDI_script (Ok rep) t)) = s_isPlaying t"
proof -
  have a: "loadMIDI r s = loadMIDI_failed s"
    using assms(1) by auto
  have b: "loadMIDI_script r' t =
             loadMIDI_script_catch (console_script ''Loading MIDI file from backend...'' t)"
    using assms(3) by (auto simp: loadMIDI_script_def Let_def)
  have c: "loadMIDI_script (Ok rep) t =
             Inr (console_script ''Failed to load MIDI data:''
                    (console_script ''Loading MIDI file from backend...'' t))"
    using assms(4) by (simp add: loadMIDI_script_def Let_def)
  have d: "notifications (doc (loadMIDI (Ok data) s)) =
             notifications (doc s) @
               [(''Error loading MIDI file. Make sure the backend is running.'', ''error'')]"
    "notes (loadMIDI (Ok data) s) = p_notes data"
    unfolding loadMIDI_without_difficulty [OF assms(2)]
    by (simp_all add: loadMIDI_failed_fields)
  have e: "s_console (s_doc (state_of (loadMIDI_script r' t))) =
             s_console (s_doc t) @
               [''Loading MIDI file from backend...'', ''Error loading MIDI file:'']"
    unfolding b by (simp add: loadMIDI_script_catch_console console_script_def)
  show ?thesis
    unfolding c
    by (simp add: d e loadMIDI_fields console_script_fields del: loadMIDI.simps)
       (simp add: a b loadMIDI_failed_fields loadMIDI_script_catch_fields console_script_fields
         length_sample_data)
qed

text \<open>
  A status that is not ok and a body without \<^verbatim>\<open>difficulty\<close>, each ending a load into
  the application that holds the one note C4; a rejected \<^verbatim>\<open>fetch\<close> and a reply
  without success, each ending a load of \<^verbatim>\<open>frontend/script.js\<close> with no notes.
\<close>

theorem failed_load_outcome_witness:
  "p_difficulty (bare_payload [note_d4]) = None
   \<and> r_success failure_reply = False
   \<and> notifications (doc (loadMIDI NotOk (paused [note_c4] 0))) =
       [(''Error loading MIDI file. Make sure the backend is running.'', ''error'')]
   \<and> notes (loadMIDI NotOk (paused [note_c4] 0)) = [note_c4]
   \<and> notifications (doc (loadMIDI (Ok (bare_payload [note_d4])) (paused [note_c4] 0))) =
       [(''Error loading MIDI file. Make sure the backend is running.'', ''error'')]
   \<and> notes (loadMIDI (Ok (bare_payload [note_d4])) (paused [note_c4] 0)) = [note_d4]
   \<and> s_notes (state_of (loadMIDI_script FetchRejected (script_app [] 0))) = sample_data
   \<and> s_console (s_doc (state_of (loadMIDI_script FetchRejected (script_app [] 0)))) =
       [''Loading MIDI file from backend...'', ''Error loading MIDI file:'']
   \<and> s_notes (state_of (loadMIDI_script (Ok failure_reply) (script_app [] 0))) = []"
  using failed_load_outcome [of NotOk "bare_payload [note_d4]" FetchRejected failure_reply
      "paused [note_c4] 0" "script_app [] 0"]
  by (simp add: paused_def constructor_def small_page_def bare_payload_def failure_reply_def
      script_app_def console_script_def del: loadMIDI.simps)

text \<open>
  Claim C10 as stated fails: a first load that fails leaves the enhanced application
  with the empty sequence it started with, whichever way the request failed.
\<close>

theorem failed_load_no_demo_counterexample:
  "notes (loadMIDI FetchRejected (constructor small_page)) = []
   \<and> notes (loadMIDI NotOk (constructor small_page)) = []
   \<and> notes (loadMIDI JsonRejected (constructor small_page)) = []"
  by (simp add: loadMIDI_failed_def showNotification_def constructor_def)

subsection \<open>Starting playback\<close>

text \<open>
  Claim C3, as the code has it. With an empty sequence \<^verbatim>\<open>startPlayback\<close> shows the
  warning \<^verbatim>\<open>Please load a MIDI file first\<close> and does nothing else: \<^verbatim>\<open>isPlaying\<close>,
  the cursor and the timeouts are as before, and after \<^verbatim>\<open>togglePlayback\<close> the
  application is not playing. The \<^verbatim>\<open>play\<close> of \<^verbatim>\<open>frontend/script.js\<close> returns with
  the state unchanged, so it starts nothing either, and shows no warning.
\<close>

theorem startPlayback_empty_rejected:
  assumes "length (notes s) = 0" and "length (s_notes t) = 0"
  shows "startPlayback s = showNotification ''Please load a MIDI file first'' ''warning'' s
         \<and> notifications (doc (startPlayback s)) =
             notifications (doc s) @ [(''Please load a MIDI file first'', ''warning'')]
         \<and> isPlaying (startPlayback s) = isPlaying s
         \<and> currentNoteIndex (startPlayback s) = currentNoteIndex s
         \<and> timeouts (startPlayback s) = timeouts s
         \<and> \<not> isPlaying (togglePlayback s)
         \<and> play t = Inr t"
  using assms
  by (simp add: startPlayback_def togglePlayback_def play_def showNotification_fields
      pausePlayback_fields)

theorem startPlayback_empty_rejected_witness:
  "notifications (doc (startPlayback (constructor small_page))) =
     [(''Please load a MIDI file first'', ''warning'')]
   \<and> isPlaying (startPlayback (constructor small_page)) = False
   \<and> currentNoteIndex (startPlayback (constructor small_page)) = 0
   \<and> play (script_app [] 0) = Inr (script_app [] 0)"
  using startPlayback_empty_rejected [of "constructor small_page" "script_app [] 0"]
  by (simp add: model_defs small_page_def script_app_def)

text \<open>
  Claim C3 as stated fails for the \<^verbatim>\<open>play\<close> of \<^verbatim>\<open>frontend/script.js\<close>: on an empty
  sequence it returns with every field and the whole page, console included, as before.
\<close>

theorem play_silent_counterexample:
  "s_notes (script_app [] 0) = []
   \<and> play (script_app [] 0) = Inr (script_app [] 0)
   \<and> s_console (s_doc (state_of (play (script_app [] 0)))) = []"
  by (simp add: play_def script_app_def)

text \<open>
  Claim C9. With a sequence that is not empty and the cursor at its length,
  \<^verbatim>\<open>startPlayback\<close> comes to what \<^verbatim>\<open>pausePlayback\<close> does, followed by the
  notification \<^verbatim>\<open>Playback completed!\<close>: the cursor and the sequence are as before,
  \<^verbatim>\<open>isPlaying\<close> is false, and no timeout is armed.
\<close>

theorem startPlayback_at_end:
  assumes "notes s \<noteq> []" and "currentNoteIndex s = length (notes s)"
  shows "startPlayback s = showNotification ''Playback completed!'' ''success'' (pausePlayback s)
         \<and> currentNoteIndex (startPlayback s) = currentNoteIndex s
         \<and> isPlaying (startPlayback s) = False
         \<and> notes (startPlayback s) = notes s
         \<and> set (timeouts (startPlayback s)) \<subseteq> set (timeouts s)
         \<and> next_handle (startPlayback s) = next_handle s"
proof -
  have "startPlayback s = showNotification ''Playback completed!'' ''success'' (pausePlayback s)"
    using assms by (simp add: startPlayback_def playNextNote_def pausePlayback_overwrites)
  then show ?thesis
    by (simp add: showNotification_fields pausePlayback_fields timeouts_pausePlayback_subset)
qed

theorem startPlayback_at_end_witness:
  "currentNoteIndex (startPlayback (paused [note_c4, note_d4] 2)) = 2
   \<and> isPlaying (startPlayback (paused [note_c4, note_d4] 2)) = False
   \<and> timeouts (startPlayback (paused [note_c4, note_d4] 2)) = []"
  using startPlayback_at_end [of "paused [note_c4, note_d4] 2"]
  by (simp add: paused_def model_defs)

subsection \<open>The wait before the next advance\<close>

text \<open>
  Claim C2. When \<^verbatim>\<open>playNextNote\<close> shows the note at the cursor (the application is
  playing and the cursor is inside the sequence) and the speed is not 0, it arms exactly
  one timeout more, whose delay in milliseconds is the larger of 100 and
  \<open>(next.offset - current.offset) * 1000 / speed\<close> when a next note exists, and the larger
  of 100 and \<open>current.duration * 1000 / speed\<close> at the last note. It keeps the handle in
  \<^verbatim>\<open>playbackTimer\<close> and moves the cursor on by one.
\<close>

theorem playNextNote_delay:
  assumes "isPlaying s" and "currentNoteIndex s < length (notes s)" and "playbackSpeed s \<noteq> 0"
  shows "timeouts (playNextNote s) =
           timeouts s @
           [(next_handle s,
             Num (max 100
               (if currentNoteIndex s + 1 < length (notes s)
                then (offset (notes s ! (currentNoteIndex s + 1))
                        - offset (notes s ! currentNoteIndex s)) * 1000 / playbackSpeed s
                else duration (notes s ! currentNoteIndex s) * 1000 / playbackSpeed s)))]
         \<and> playbackTimer (playNextNote s) = Some (next_handle s)
         \<and> currentNoteIndex (playNextNote s) = currentNoteIndex s + 1"
  using assms
  by (simp add: playNextNote_def setTimeout_playNextNote_def updateProgress_fields note_at_def
      js_div_def Let_def max.commute)

text \<open>
  Notes at offsets 0 s and 1 s: 1000 ms at speed 1 and 500 ms at speed 2. The same notes
  out of order give a negative difference and the delay is 100 ms. At the last note
  (duration 1 s) the delay is 2000 ms at speed 0.5 and 100 ms at speed 20.
\<close>

theorem playNextNote_delay_witness:
  "timeouts (playNextNote (playing [note_c4, note_d4] 0 1)) = [(1, Num 1000)]
   \<and> timeouts (playNextNote (playing [note_c4, note_d4] 0 2)) = [(1, Num 500)]
   \<and> timeouts (playNextNote (playing [note_d4, note_c4] 0 1)) = [(1, Num 100)]
   \<and> timeouts (playNextNote (playing [note_c4, note_d4] 1 (1 / 2))) = [(1, Num 2000)]
   \<and> timeouts (playNextNote (playing [note_c4, note_d4] 1 20)) = [(1, Num 100)]"
  using playNextNote_delay [of "playing [note_c4, note_d4] 0 1"]
    playNextNote_delay [of "playing [note_c4, note_d4] 0 2"]
    playNextNote_delay [of "playing [note_d4, note_c4] 0 1"]
    playNextNote_delay [of "playing [note_c4, note_d4] 1 (1 / 2)"]
    playNextNote_delay [of "playing [note_c4, note_d4] 1 20"]
  by (simp add: playing_def constructor_def note_c4_def note_d4_def)

subsection \<open>Stepping by hand\<close>






subsection \<open>The pending timeout\<close>

lemma one_pendingI_empty: "0 < next_handle s \<Longrightarrow> timeouts s = [] \<Longrightarrow> one_pending s"
  by (simp add: one_pending_def)

lemma one_pending_idle: "one_pending s \<Longrightarrow> \<not> isPlaying s \<Longrightarrow> timeouts s = []"
  by (cases "timeouts s") (auto simp: one_pending_def)

lemma one_pending_handle: "one_pending s \<Longrightarrow> 0 < next_handle s"
  by (simp add: one_pending_def)

lemma one_pending_length: "one_pending s \<Longrightarrow> length (timeouts s) \<le> 1"
  by (simp add: one_pending_def)

lemma pausePlayback_cancels: "one_pending s \<Longrightarrow> timeouts (pausePlayback s) = []"
  by (cases "timeouts s")
     (auto simp: one_pending_def timeouts_pausePlayback split: option.split)

lemma one_pending_pausePlayback: "one_pending s \<Longrightarrow> one_pending (pausePlayback s)"
  by (simp add: one_pendingI_empty pausePlayback_cancels pausePlayback_fields one_pending_handle)

lemma one_pending_cong:
  "one_pending s \<Longrightarrow> next_handle s' = next_handle s \<Longrightarrow> timeouts s' = timeouts s \<Longrightarrow>
   isPlaying s' = isPlaying s \<Longrightarrow> playbackTimer s' = playbackTimer s \<Longrightarrow> one_pending s'"
  by (simp add: one_pending_def)

lemma one_pending_playNextNote:
  assumes "0 < next_handle s" and "timeouts s = []"
  shows "one_pending (playNextNote s)"
proof (cases "\<not> isPlaying s \<or> currentNoteIndex s \<ge> length (notes s)")
  case True
  then have "playNextNote s = showNotification ''Playback completed!'' ''success'' (pausePlayback s)"
    by (simp add: playNextNote_def)
  moreover have "timeouts (pausePlayback s) = []"
    using assms by (simp add: timeouts_pausePlayback split: option.split)
  ultimately show ?thesis
    using assms by (simp add: one_pending_def showNotification_fields pausePlayback_fields)
next
  case False
  then show ?thesis
    using assms
    by (simp add: playNextNote_def setTimeout_playNextNote_def updateProgress_fields
        one_pending_def Let_def)
qed

lemma one_pending_resetPlayback: "one_pending s \<Longrightarrow> one_pending (resetPlayback s)"
  by (simp add: one_pendingI_empty resetPlayback_fields pausePlayback_cancels one_pending_handle)

lemma one_pending_startPlayback:
  assumes "one_pending s" and "\<not> isPlaying s"
  shows "one_pending (startPlayback s)"
proof (cases "length (notes s) = 0")
  case True
  then show ?thesis
    using assms(1) by (simp add: startPlayback_def one_pending_def showNotification_fields)
next
  case False
  have "timeouts s = []" using assms by (rule one_pending_idle)
  then show ?thesis
    using False assms(1)
    by (simp add: startPlayback_def one_pending_playNextNote one_pending_handle)
qed

lemma one_pending_togglePlayback: "one_pending s \<Longrightarrow> one_pending (togglePlayback s)"
  by (simp add: togglePlayback_def one_pending_pausePlayback one_pending_startPlayback)

lemma one_pending_loadMIDI: "one_pending s \<Longrightarrow> one_pending (loadMIDI r s)"
  by (erule one_pending_cong) (simp_all add: loadMIDI_fields)

lemma one_pending_handleKeyboard:
  "one_pending s \<Longrightarrow> one_pending (state_of (handleKeyboard k s))"
proof (cases k)
  case Space
  assume "one_pending s"
  then show ?thesis using Space by (simp add: one_pending_togglePlayback)
next
  case ArrowRight
  assume "one_pending s"
  then show ?thesis
    unfolding ArrowRight
    by (rule one_pending_cong) (simp_all add: ArrowRight_fields del: handleKeyboard.simps)
next
  case ArrowLeft
  assume "one_pending s"
  then show ?thesis
    unfolding ArrowLeft
    by (rule one_pending_cong) (simp_all add: ArrowLeft_fields del: handleKeyboard.simps)
next
  case KeyR
  assume "one_pending s"
  then show ?thesis using KeyR by (simp add: one_pending_resetPlayback)
next
  case OtherKey
  assume "one_pending s"
  then show ?thesis using OtherKey by simp
qed

lemma one_pending_fire:
  assumes "one_pending s" and "h \<in> fst ` set (timeouts s)"
  shows "filter (\<lambda>t. fst t \<noteq> h) (timeouts s) = []"
  using assms by (cases "timeouts s") (auto simp: one_pending_def)

lemma one_pending_step: "one_pending s \<Longrightarrow> one_pending (step e s)"
proof (cases e)
  case (LoadEnds r)
  assume "one_pending s"
  then show ?thesis using LoadEnds by (simp add: one_pending_loadMIDI)
next
  case ClickPlayPause
  assume "one_pending s"
  then show ?thesis using ClickPlayPause by (simp add: one_pending_togglePlayback)
next
  case ClickReset
  assume "one_pending s"
  then show ?thesis using ClickReset by (simp add: one_pending_resetPlayback)
next
  case (TempoInput v)
  assume "one_pending s"
  then show ?thesis using TempoInput by (simp add: one_pending_def setTempo_def)
next
  case (HandSelect hs)
  assume "one_pending s"
  then show ?thesis using HandSelect by (simp add: one_pending_def setVisibleHands_def Let_def)
next
  case (KeyDown k)
  assume "one_pending s"
  then show ?thesis
    using KeyDown by (simp add: one_pending_handleKeyboard del: handleKeyboard.simps)
next
  case (TimeoutFires h)
  assume inv: "one_pending s"
  show ?thesis
  proof (cases "h \<in> fst ` set (timeouts s)")
    case True
    then have "filter (\<lambda>t. fst t \<noteq> h) (timeouts s) = []"
      using inv by (simp add: one_pending_fire)
    then have "one_pending (playNextNote (s\<lparr>timeouts := filter (\<lambda>t. fst t \<noteq> h) (timeouts s)\<rparr>))"
      using inv by (intro one_pending_playNextNote) (simp_all add: one_pending_handle)
    then show ?thesis using True TimeoutFires by simp
  next
    case False
    then show ?thesis using inv TimeoutFires by simp
  qed
qed

lemma one_pending_run: "one_pending s \<Longrightarrow> one_pending (run es s)"
  by (induction es arbitrary: s) (simp_all add: one_pending_step)

lemma one_pending_constructor: "one_pending (constructor page)"
  by (simp add: one_pending_def constructor_def)

lemma one_pending_reachable: "one_pending (run es (constructor page))"
  by (simp add: one_pending_run one_pending_constructor)

text \<open>
  Claim C5, as the code has it. In every state that the events reach from the
  constructor (loads, clicks, tempo and hand inputs, keys, timeouts firing) at most one
  timeout is pending. From such a state \<^verbatim>\<open>pausePlayback\<close> and \<^verbatim>\<open>resetPlayback\<close>
  return with no timeout pending, so that no timeout can fire after them and the firing
  of any handle changes nothing. \<^verbatim>\<open>loadMIDI\<close>, however it ends, cancels nothing: the
  pending timeouts and \<^verbatim>\<open>isPlaying\<close> are as before.
\<close>

theorem single_pending_advance:
  "length (timeouts (run es (constructor page))) \<le> 1
   \<and> timeouts (pausePlayback (run es (constructor page))) = []
   \<and> timeouts (resetPlayback (run es (constructor page))) = []
   \<and> step (TimeoutFires h) (pausePlayback (run es (constructor page)))
       = pausePlayback (run es (constructor page))
   \<and> step (TimeoutFires h) (resetPlayback (run es (constructor page)))
       = resetPlayback (run es (constructor page))
   \<and> timeouts (loadMIDI r (run es (constructor page))) = timeouts (run es (constructor page))
   \<and> isPlaying (loadMIDI r (run es (constructor page))) = isPlaying (run es (constructor page))"
  using one_pending_reachable [of es page]
    one_pending_length [OF one_pending_reachable, of es page]
  by (simp add: pausePlayback_cancels resetPlayback_fields loadMIDI_fields)

text \<open>
  After a load of two notes and a click on play one timeout is pending, of 1000 ms;
  pausing or resetting there leaves none.
\<close>

theorem single_pending_advance_witness:
  "timeouts (run [LoadEnds (Ok (payload_of [note_c4, note_d4])), ClickPlayPause]
       (constructor small_page)) = [(1, Num 1000)]
   \<and> timeouts (pausePlayback (run [LoadEnds (Ok (payload_of [note_c4, note_d4])), ClickPlayPause]
       (constructor small_page))) = []
   \<and> timeouts (resetPlayback (run [LoadEnds (Ok (payload_of [note_c4, note_d4])), ClickPlayPause]
       (constructor small_page))) = []"
  using single_pending_advance [of "[LoadEnds (Ok (payload_of [note_c4, note_d4])), ClickPlayPause]"
      small_page 1 NotOk]
  by (simp add: model_defs note_c4_def note_d4_def)

text \<open>
  Claim C5 as stated fails for the load: a load that ends while the application plays
  leaves the timeout of the superseded sequence pending, and when that timeout fires the
  cursor moves on to 2 and the note at index 1 of the new sequence (C4) is shown.
\<close>

theorem load_keeps_timeout_counterexample:
  "timeouts (loadMIDI (Ok (payload_of [note_d4, note_c4]))
       (run [LoadEnds (Ok (payload_of [note_c4, note_d4])), ClickPlayPause]
          (constructor small_page))) = [(1, Num 1000)]
   \<and> currentNoteIndex (run [LoadEnds (Ok (payload_of [note_c4, note_d4])), ClickPlayPause,
        LoadEnds (Ok (payload_of [note_d4, note_c4])), TimeoutFires 1]
          (constructor small_page)) = 2
   \<and> current_note (doc (run [LoadEnds (Ok (payload_of [note_c4, note_d4])), ClickPlayPause,
        LoadEnds (Ok (payload_of [note_d4, note_c4])), TimeoutFires 1]
          (constructor small_page))) = Some ''C4''"
  by (simp add: model_defs note_c4_def note_d4_def highlightFinger_def highlightKey_def
      displayCurrentNote_def clearFingerHighlights_def clearKeyHighlights_def)

subsection \<open>The cursor and the length of the sequence\<close>

lemma cursor_in_range_playNextNote: "cursor_in_range s \<Longrightarrow> cursor_in_range (playNextNote s)"
  by (simp add: cursor_in_range_def playNextNote_def setTimeout_playNextNote_def
      updateProgress_fields showNotification_fields pausePlayback_fields Let_def)

lemma cursor_in_range_pausePlayback: "cursor_in_range s \<Longrightarrow> cursor_in_range (pausePlayback s)"
  by (simp add: cursor_in_range_def pausePlayback_fields)

lemma cursor_in_range_startPlayback: "cursor_in_range s \<Longrightarrow> cursor_in_range (startPlayback s)"
proof (cases "length (notes s) = 0")
  case True
  assume "cursor_in_range s"
  then show ?thesis using True
    by (simp add: startPlayback_def cursor_in_range_def showNotification_fields)
next
  case False
  assume "cursor_in_range s"
  then have "cursor_in_range (s\<lparr>isPlaying := True, doc := (doc s)\<lparr>play_pause := PauseLabel\<rparr>\<rparr>)"
    by (simp add: cursor_in_range_def)
  then have "cursor_in_range
      (playNextNote (s\<lparr>isPlaying := True, doc := (doc s)\<lparr>play_pause := PauseLabel\<rparr>\<rparr>))"
    by (rule cursor_in_range_playNextNote)
  then show ?thesis using False by (simp add: startPlayback_def)
qed

lemma cursor_in_range_togglePlayback: "cursor_in_range s \<Longrightarrow> cursor_in_range (togglePlayback s)"
  by (simp add: togglePlayback_def cursor_in_range_pausePlayback cursor_in_range_startPlayback)

text \<open>Every event other than the end of a load keeps the cursor within \<open>[0, length]\<close>.\<close>

lemma cursor_in_range_step:
  assumes "cursor_in_range s" and "\<forall>r. e \<noteq> LoadEnds r"
  shows "cursor_in_range (step e s)"
proof (cases e)
  case (LoadEnds r)
  then show ?thesis using assms(2) by simp
next
  case ClickPlayPause
  then show ?thesis using assms(1) by (simp add: cursor_in_range_togglePlayback)
next
  case ClickReset
  then show ?thesis by (simp add: cursor_in_range_def resetPlayback_fields)
next
  case (TempoInput v)
  then show ?thesis using assms(1) by (simp add: cursor_in_range_def setTempo_def)
next
  case (HandSelect hs)
  then show ?thesis using assms(1) by (simp add: cursor_in_range_def setVisibleHands_def Let_def)
next
  case (KeyDown k)
  show ?thesis
  proof (cases k)
    case Space
    then show ?thesis using KeyDown assms(1) by (simp add: cursor_in_range_togglePlayback)
  next
    case ArrowRight
    then show ?thesis
      using KeyDown assms(1)
      by (simp add: cursor_in_range_def note_at_def displayCurrentNote_at_def
          updateProgress_fields Let_def)
  next
    case ArrowLeft
    then show ?thesis
      using KeyDown assms(1)
      by (simp add: cursor_in_range_def note_at_def displayCurrentNote_at_def
          updateProgress_fields Let_def)
  next
    case KeyR
    then show ?thesis using KeyDown by (simp add: cursor_in_range_def resetPlayback_fields)
  next
    case OtherKey
    then show ?thesis using KeyDown assms(1) by simp
  qed
next
  case (TimeoutFires h)
  have "cursor_in_range (s\<lparr>timeouts := filter (\<lambda>t. fst t \<noteq> h) (timeouts s)\<rparr>)"
    using assms(1) by (simp add: cursor_in_range_def)
  then have "cursor_in_range
      (playNextNote (s\<lparr>timeouts := filter (\<lambda>t. fst t \<noteq> h) (timeouts s)\<rparr>))"
    by (rule cursor_in_range_playNextNote)
  then show ?thesis using TimeoutFires assms(1) by simp
qed

text \<open>
  Claim C6 at the failing input. Two notes are loaded, the right arrow is pressed twice,
  and a second load delivers one note: the cursor is 2 and the sequence has length 1. The
  left arrow then moves the cursor to 1, reads \<^verbatim>\<open>this.notes[1]\<close>, which is
  \<^verbatim>\<open>undefined\<close>, and \<^verbatim>\<open>displayCurrentNote\<close> throws.
\<close>

theorem cursor_beyond_length_after_load:
  "currentNoteIndex (run [LoadEnds (Ok (payload_of [note_c4, note_d4])), KeyDown ArrowRight,
        KeyDown ArrowRight, LoadEnds (Ok (payload_of [note_c4]))] (constructor small_page)) = 2
   \<and> length (notes (run [LoadEnds (Ok (payload_of [note_c4, note_d4])), KeyDown ArrowRight,
        KeyDown ArrowRight, LoadEnds (Ok (payload_of [note_c4]))] (constructor small_page))) = 1
   \<and> isl (handleKeyboard ArrowLeft
        (run [LoadEnds (Ok (payload_of [note_c4, note_d4])), KeyDown ArrowRight,
           KeyDown ArrowRight, LoadEnds (Ok (payload_of [note_c4]))] (constructor small_page)))"
  by (simp add: model_defs note_c4_def note_d4_def)

subsection \<open>Highlighting\<close>

lemma clear_key_comp:
  "(\<lambda>k. if indicator_show k then k\<lparr>indicator_show := False\<rparr> else k) \<circ>
   (\<lambda>k. if key_active k then k\<lparr>key_active := False\<rparr> else k) = clear_key"
  by (rule ext) (simp add: clear_key_def)

lemma mark_key_lambda:
  "(\<lambda>k. k\<lparr>key_active := True, indicator_text := Some (finger n), indicator_show := True\<rparr>)
   = mark_key n"
  by (rule ext) (simp add: mark_key_def)

lemma piano_keys_highlightKey:
  "piano_keys (highlightKey n d) =
     update_first (\<lambda>k. data_midi k = midi n) (mark_key n) (map clear_key (piano_keys d))"
  by (simp add: highlightKey_def clearKeyHighlights_def clear_key_comp mark_key_lambda Let_def)

lemma marked_keys_idem:
  "update_first (\<lambda>k. data_midi k = m) (mark_key n) (map clear_key
     (update_first (\<lambda>k. data_midi k = m) (mark_key n) (map clear_key ks))) =
   update_first (\<lambda>k. data_midi k = m) (mark_key n) (map clear_key ks)"
  by (induction ks) (auto simp: clear_key_def mark_key_def)

lemma marked_keys_one:
  "length (filter key_active
     (update_first (\<lambda>k. data_midi k = m) (mark_key n) (map clear_key ks))) \<le> Suc 0"
  by (induction ks) (auto simp: clear_key_def mark_key_def o_def)

lemma highlightKey_other:
  "highlightKey n d = d\<lparr>piano_keys := piano_keys (highlightKey n d)\<rparr>"
  by (simp add: highlightKey_def clearKeyHighlights_def Let_def)

lemma highlightKey_idem: "highlightKey n (highlightKey n d) = highlightKey n d"
proof -
  have "highlightKey n (highlightKey n d) =
        (highlightKey n d)\<lparr>piano_keys := piano_keys (highlightKey n (highlightKey n d))\<rparr>"
    by (rule highlightKey_other)
  also have "piano_keys (highlightKey n (highlightKey n d)) = piano_keys (highlightKey n d)"
    by (simp add: piano_keys_highlightKey marked_keys_idem)
  finally show ?thesis by simp
qed

lemma clear_finger_lambda:
  "(\<lambda>f. if finger_active f then f\<lparr>finger_active := False, finger_base := True\<rparr> else f)
   = clear_finger"
  by (rule ext) (simp add: clear_finger_def)

lemma mark_finger_lambda:
  "(\<lambda>f. f\<lparr>finger_base := False, finger_active := True\<rparr>) = mark_finger"
  by (rule ext) (simp add: mark_finger_def)

lemma highlightFinger_eq:
  "highlightFinger n d =
     (if hand n = ''right''
      then d\<lparr>right_hand_svg := update_first (\<lambda>f. data_finger f = finger n) mark_finger
                                 (map clear_finger (right_hand_svg d)),
             left_hand_svg := map clear_finger (left_hand_svg d)\<rparr>
      else d\<lparr>right_hand_svg := map clear_finger (right_hand_svg d),
             left_hand_svg := update_first (\<lambda>f. data_finger f = finger n) mark_finger
                                 (map clear_finger (left_hand_svg d))\<rparr>)"
  by (simp add: highlightFinger_def clearFingerHighlights_def clear_finger_lambda
      mark_finger_lambda Let_def)

lemma clear_finger_idem: "map clear_finger (map clear_finger fs) = map clear_finger fs"
  by (induction fs) (auto simp: clear_finger_def)

lemma clear_finger_comp: "clear_finger \<circ> clear_finger = clear_finger"
  by (rule ext) (simp add: clear_finger_def)

lemma clear_finger_none: "filter finger_active (map clear_finger fs) = []"
  by (induction fs) (auto simp: clear_finger_def)

lemma marked_fingers_one:
  "length (filter finger_active
     (update_first (\<lambda>f. data_finger f = k) mark_finger (map clear_finger fs))) \<le> Suc 0"
  by (induction fs) (auto simp: clear_finger_none mark_finger_def clear_finger_def)

lemma marked_fingers_idem:
  "update_first (\<lambda>f. data_finger f = k) mark_finger (map clear_finger
     (update_first (\<lambda>f. data_finger f = k) mark_finger (map clear_finger fs))) =
   update_first (\<lambda>f. data_finger f = k) mark_finger (map clear_finger fs)"
  by (induction fs)
     (auto simp: clear_finger_def mark_finger_def clear_finger_idem [unfolded clear_finger_def])

lemma highlightFinger_idem: "highlightFinger n (highlightFinger n d) = highlightFinger n d"
  by (simp add: highlightFinger_eq marked_fingers_idem clear_finger_comp)

lemma displayCurrentNote_idem:
  "displayCurrentNote n (displayCurrentNote n d) = displayCurrentNote n d"
  by (simp add: displayCurrentNote_def)

lemma highlightKey_displayCurrentNote:
  "highlightKey n (displayCurrentNote n d) = displayCurrentNote n (highlightKey n d)"
  by (simp add: highlightKey_def displayCurrentNote_def clearKeyHighlights_def Let_def)

lemma highlightFinger_displayCurrentNote:
  "highlightFinger n (displayCurrentNote n d) = displayCurrentNote n (highlightFinger n d)"
  by (simp add: highlightFinger_eq displayCurrentNote_def)

lemma highlightFinger_highlightKey:
  "highlightFinger n (highlightKey n d) = highlightKey n (highlightFinger n d)"
  by (simp add: highlightFinger_eq highlightKey_def clearKeyHighlights_def Let_def)

lemma render_idem: "render n (render n d) = render n d"
  by (simp add: render_def highlightKey_displayCurrentNote highlightFinger_displayCurrentNote
      highlightFinger_highlightKey highlightFinger_idem highlightKey_idem
      displayCurrentNote_idem)

lemma piano_keys_render: "piano_keys (render n d) = piano_keys (highlightKey n d)"
  by (simp add: render_def highlightFinger_eq highlightKey_def displayCurrentNote_def
      clearKeyHighlights_def Let_def)

lemma right_hand_render: "length (filter finger_active (right_hand_svg (render n d))) \<le> 1"
  by (simp add: render_def highlightFinger_eq marked_fingers_one clear_finger_none)

lemma left_hand_render: "length (filter finger_active (left_hand_svg (render n d))) \<le> 1"
  by (simp add: render_def highlightFinger_eq marked_fingers_one clear_finger_none)

text \<open>
  Claim C8. Showing a note twice in a row gives the same page as showing it once. After
  a note is shown, whatever the page was before, at most one key carries the class
  \<^verbatim>\<open>active\<close>, and in each of the two hand diagrams at most one finger carries the
  class \<^verbatim>\<open>finger-active\<close>.
\<close>

theorem render_idempotent_single_active:
  "render n (render n d) = render n d
   \<and> length (filter key_active (piano_keys (render n d))) \<le> 1
   \<and> length (filter finger_active (right_hand_svg (render n d))) \<le> 1
   \<and> length (filter finger_active (left_hand_svg (render n d))) \<le> 1"
  using right_hand_render [of n d] left_hand_render [of n d]
  by (simp add: render_idem piano_keys_render piano_keys_highlightKey marked_keys_one)

text \<open>
  C4 shown twice and then D4 on the small page: the second key and the second finger of
  the right hand are the only active ones.
\<close>

theorem render_idempotent_single_active_witness:
  "render note_c4 (render note_c4 small_page) = render note_c4 small_page
   \<and> map key_active (piano_keys (render note_d4 (render note_c4 small_page)))
       = [False, True, False]
   \<and> map finger_active (right_hand_svg (render note_d4 (render note_c4 small_page)))
       = [False, True, False, False, False]
   \<and> map finger_active (left_hand_svg (render note_d4 (render note_c4 small_page)))
       = [False, False, False, False, False]"
  using render_idempotent_single_active [of note_c4 small_page]
  by (simp add: render_def highlightFinger_def highlightKey_def displayCurrentNote_def
      clearKeyHighlights_def clearFingerHighlights_def small_page_def key_of_def finger_of_def
      note_c4_def note_d4_def Let_def)

subsection \<open>The finger heuristic\<close>

lemma js_rem_nonneg: "0 \<le> a \<Longrightarrow> js_rem a 12 = a mod 12"
  by (cases "a = 0") (simp_all add: js_rem_def)

text \<open>
  Claim C4. For a note whose MIDI number is a non-negative integer,
  \<^verbatim>\<open>assignFingerToNote\<close> returns the finger that the table gives for the number
  modulo 12: 0 and 1 thumb, 2 and 3 index, 4 and 5 middle, 6 and 7 ring, and pinky for
  the remaining classes, which are 8 to 11.
\<close>

theorem assignFingerToNote_table:
  assumes "0 \<le> s_midi n"
  shows "assignFingerToNote n =
           (if s_midi n mod 12 \<in> {0, 1} then ''thumb''
            else if s_midi n mod 12 \<in> {2, 3} then ''index''
            else if s_midi n mod 12 \<in> {4, 5} then ''middle''
            else if s_midi n mod 12 \<in> {6, 7} then ''ring''
            else ''pinky'')
         \<and> s_midi n mod 12 \<in> {0, 1, 2, 3, 4, 5, 6, 7, 8, 9, 10, 11}"
proof -
  define k where "k = s_midi n mod 12"
  have r: "js_rem (s_midi n) 12 = k"
    using assms by (simp add: js_rem_nonneg k_def)
  have b: "0 \<le> k" "k < 12"
    by (simp_all add: k_def)
  have 1: "k \<in> {0, 1} \<longleftrightarrow> k \<le> 1" using b by auto
  have 2: "k \<in> {2, 3} \<longleftrightarrow> 1 < k \<and> k \<le> 3" by auto
  have 3: "k \<in> {4, 5} \<longleftrightarrow> 3 < k \<and> k \<le> 5" by auto
  have 4: "k \<in> {6, 7} \<longleftrightarrow> 5 < k \<and> k \<le> 7" by auto
  have "k = 0 \<or> k = 1 \<or> k = 2 \<or> k = 3 \<or> k = 4 \<or> k = 5 \<or> k = 6 \<or> k = 7 \<or> k = 8
          \<or> k = 9 \<or> k = 10 \<or> k = 11"
    using b by arith
  then have 5: "k \<in> {0, 1, 2, 3, 4, 5, 6, 7, 8, 9, 10, 11}" by simp
  have "assignFingerToNote n =
           (if k \<in> {0, 1} then ''thumb''
            else if k \<in> {2, 3} then ''index''
            else if k \<in> {4, 5} then ''middle''
            else if k \<in> {6, 7} then ''ring''
            else ''pinky'')"
    unfolding 1 2 3 4 by (simp add: assignFingerToNote_def r Let_def)
  with 5 show ?thesis unfolding k_def by simp
qed

text \<open>The five numbers of the specification: 60, 62, 65, 67 and 70.\<close>

theorem assignFingerToNote_table_witness:
  "assignFingerToNote (note_of_midi 60) = ''thumb''
   \<and> assignFingerToNote (note_of_midi 62) = ''index''
   \<and> assignFingerToNote (note_of_midi 65) = ''middle''
   \<and> assignFingerToNote (note_of_midi 67) = ''ring''
   \<and> assignFingerToNote (note_of_midi 70) = ''pinky''"
  using assignFingerToNote_table [of "note_of_midi 60"]
    assignFingerToNote_table [of "note_of_midi 62"]
    assignFingerToNote_table [of "note_of_midi 65"]
    assignFingerToNote_table [of "note_of_midi 67"]
    assignFingerToNote_table [of "note_of_midi 70"]
  by (simp add: note_of_midi_def)

end
